theory Spec2Isabelle
  imports Main
begin

section \<open>The base client of knex (src/client.js)\<close>

text \<open>
  The development embeds the driver-agnostic client object of \<^verbatim>\<open>src/client.js\<close>:
  its constructor, \<^verbatim>\<open>query\<close>, \<^verbatim>\<open>stream\<close>, \<^verbatim>\<open>wrapIdentifier\<close>, the pool
  factory (\<^verbatim>\<open>initializePool\<close>, \<^verbatim>\<open>poolDefaults\<close>), \<^verbatim>\<open>acquireConnection\<close> and
  \<^verbatim>\<open>destroy\<close>. Everything the file calls but does not define (the dialect's driver
  primitives, the Pool2 library, \<^verbatim>\<open>SqlString.format\<close>, the ambient \<^verbatim>\<open>domain.active\<close>)
  is a parameter of the function that calls it. Debug logging (\<^verbatim>\<open>debug\<close>,
  \<^verbatim>\<open>debugQuery\<close>) has no effect on the client and is left out.
\<close>

subsection \<open>Errors and promises\<close>

text \<open>
  A JavaScript error object is its constructor and its \<^verbatim>\<open>message\<close> property.
  \<open>DriverError\<close> stands for whatever error class a driver rejects with.
\<close>

datatype error_kind = Error | TypeError | ReferenceError | RangeError | DriverError

datatype js_error = JsError (kind: error_kind) (message: string)

text \<open>
  A promise is observed in one of three states. \<open>Pending\<close> is the state of a promise
  whose resolver has not been called when the function that built it returns.
\<close>

datatype 'a promise = Resolved 'a | Rejected js_error | Pending

subsection \<open>wrapIdentifier\<close>

text \<open>
  \<^verbatim>\<open>value.replace(/"/g, '""')\<close>: every occurrence of the double quote (code 0x22) is
  replaced, left to right, by two of them.
\<close>

fun replace_dquote :: "string \<Rightarrow> string" where
  "replace_dquote [] = []"
| "replace_dquote (c # cs) =
     (if c = CHR 0x22 then CHR 0x22 # CHR 0x22 # replace_dquote cs
      else c # replace_dquote cs)"

text \<open>
  \<^verbatim>\<open>wrapIdentifier(value) { return (value !== '*' ? `"${value.replace(/"/g, '""')}"` : '*') }\<close>
\<close>

definition wrapIdentifier :: "string \<Rightarrow> string" where
  "wrapIdentifier v =
     (if v \<noteq> ''*'' then [CHR 0x22] @ replace_dquote v @ [CHR 0x22] else ''*'')"

text \<open>
  The specification's wording of the quoting, for comparison with the code: the name
  between two double quotes, each character kept, except that a double quote is doubled.
\<close>

definition double_quoted_spec :: "string \<Rightarrow> string" where
  "double_quoted_spec name =
     CHR 0x22 # concat (map (\<lambda>c. if c = CHR 0x22 then [CHR 0x22, CHR 0x22] else [c]) name)
       @ [CHR 0x22]"

text \<open>Undoing the doubling: a pair of double quotes is read back as one.\<close>

fun undouble :: "string \<Rightarrow> string" where
  "undouble [] = []"
| "undouble [c] = [c]"
| "undouble (c # d # cs) =
     (if c = CHR 0x22 \<and> d = CHR 0x22 then c # undouble cs else c # undouble (d # cs))"

subsection \<open>Connections, requests and events\<close>

text \<open>
  A raw connection handle is the driver's resource together with the \<^verbatim>\<open>__knexUid\<close>
  property, which is absent until the pool's \<^verbatim>\<open>acquire\<close> tags the handle.
\<close>

record raw_connection =
  resource :: nat
  knexUid :: "string option"

datatype binding = BNum int | BStr string | BNull

text \<open>
  A structured request \<^verbatim>\<open>{sql, bindings}\<close>; \<open>bindings = None\<close> is an object without
  that property, as the one \<^verbatim>\<open>query\<close> builds from a string.
\<close>

record query_obj =
  sql :: string
  bindings :: "binding list option"

datatype request = SqlText string | QueryObj query_obj

text \<open>\<^verbatim>\<open>if (typeof obj === 'string') obj = {sql: obj}\<close>\<close>

fun normalize :: "request \<Rightarrow> query_obj" where
  "normalize (SqlText s) = \<lparr>sql = s, bindings = None\<rparr>"
| "normalize (QueryObj obj) = obj"

text \<open>
  \<^verbatim>\<open>assign({__knexUid: connection.__knexUid}, obj)\<close>: a fresh object that carries the
  handle's identifier and the properties of the request. A request is a \<^verbatim>\<open>{sql, bindings}\<close>
  object, so it has no \<^verbatim>\<open>__knexUid\<close> of its own to overwrite the handle's.
\<close>

record tagged_obj = query_obj +
  tag :: "string option"

definition tagged :: "raw_connection \<Rightarrow> query_obj \<Rightarrow> tagged_obj" where
  "tagged connection obj = \<lparr>sql = sql obj, bindings = bindings obj, tag = knexUid connection\<rparr>"

text \<open>\<^verbatim>\<open>domain.active\<close>: the active domain of the caller, if any.\<close>

type_synonym domain = "nat option"

text \<open>The events the client emits, in the order of emission.\<close>

datatype event =
    QueryEvent tagged_obj
  | QueryErrorEvent js_error tagged_obj
  | AcquireConnectionEvent domain raw_connection

subsection \<open>query and stream\<close>

text \<open>
  The rejection handler of \<^verbatim>\<open>query\<close>:
  \<^verbatim>\<open>
  (err) => {
    err.message = SqlString.format(obj.sql, obj.bindings) + ' - ' + err.message
    this.emit('query-error', err, assign({__knexUid: connection.__knexUid}, obj))
    throw err
  }
  \<close>
  \<^verbatim>\<open>SqlString.format\<close> (src/query/string.js) is the parameter \<open>format\<close>. The driver
  rejects with an error object. The handler returns the events it emits and the error it
  rethrows, which is the error it received with the message overwritten.
\<close>

definition query_catch ::
  "(string \<Rightarrow> binding list option \<Rightarrow> string) \<Rightarrow> raw_connection \<Rightarrow> query_obj \<Rightarrow> js_error
   \<Rightarrow> event list \<times> js_error" where
  "query_catch format connection obj err =
     (let err' = JsError (kind err) (format (sql obj) (bindings obj) @ '' - '' @ message err)
      in ([QueryErrorEvent err' (tagged connection obj)], err'))"

text \<open>
  \<^verbatim>\<open>
  query(connection, obj) {
    if (typeof obj === 'string') obj = {sql: obj}
    this.emit('query', assign({__knexUid: connection.__knexUid}, obj))
    debugQuery(obj.sql)
    return this._query.call(this, connection, obj).catch(...)
  }
  \<close>
  \<open>driver_query\<close> is the dialect's \<^verbatim>\<open>_query\<close>, which returns a promise. The result is
  the list of emitted events and the promise \<^verbatim>\<open>query\<close> returns.
\<close>

definition query ::
  "(string \<Rightarrow> binding list option \<Rightarrow> string) \<Rightarrow> (raw_connection \<Rightarrow> query_obj \<Rightarrow> 'r promise)
   \<Rightarrow> raw_connection \<Rightarrow> request \<Rightarrow> event list \<times> 'r promise" where
  "query format driver_query connection req =
     (let obj = normalize req;
          emitted = [QueryEvent (tagged connection obj)]
      in case driver_query connection obj of
           Rejected err \<Rightarrow>
             (let (more, err') = query_catch format connection obj err
              in (emitted @ more, Rejected err'))
         | Resolved r \<Rightarrow> (emitted, Resolved r)
         | Pending \<Rightarrow> (emitted, Pending))"

text \<open>
  \<^verbatim>\<open>
  stream(connection, obj, stream, options) {
    if (typeof obj === 'string') obj = {sql: obj}
    this.emit('query', assign({__knexUid: connection.__knexUid}, obj))
    debugQuery(obj.sql)
    return this._stream.call(this, connection, obj, stream, options)
  }
  \<close>
\<close>

definition stream ::
  "(raw_connection \<Rightarrow> query_obj \<Rightarrow> 's \<Rightarrow> 'o \<Rightarrow> 'r promise)
   \<Rightarrow> raw_connection \<Rightarrow> request \<Rightarrow> 's \<Rightarrow> 'o \<Rightarrow> event list \<times> 'r promise" where
  "stream driver_stream connection req sink options =
     (let obj = normalize req
      in ([QueryEvent (tagged connection obj)], driver_stream connection obj sink options))"

subsection \<open>Configuration\<close>

text \<open>
  The hooks \<^verbatim>\<open>afterCreate(connection, done)\<close> and \<^verbatim>\<open>beforeDestroy(connection, done)\<close>
  are user code: a hook calls \<^verbatim>\<open>done\<close> without an error, calls it with an error,
  throws, or has not called \<^verbatim>\<open>done\<close> yet.
\<close>

datatype hook_result = Done | DoneErr js_error | HookThrows js_error | NotDone

type_synonym hook = "raw_connection \<Rightarrow> hook_result"

text \<open>\<^verbatim>\<open>dispose\<close> hands \<^verbatim>\<open>beforeDestroy\<close> whatever it was given, also \<^verbatim>\<open>undefined\<close>.\<close>

type_synonym destroy_hook = "raw_connection option \<Rightarrow> hook_result"

text \<open>
  The \<^verbatim>\<open>pool\<close> options of the configuration. \<open>None\<close> is a property the object does
  not have.
\<close>

record pool_config =
  min_cfg :: "int option"
  max_cfg :: "int option"
  afterCreate :: "hook option"
  beforeDestroy :: "destroy_hook option"

text \<open>Connection settings are an object of endpoint properties.\<close>

type_synonym settings = "(string \<times> string) list"

text \<open>
  A member of the \<^verbatim>\<open>cluster\<close> list is one object that \<^verbatim>\<open>initializeCluster\<close> uses both
  as pool options and as connection settings; the record keeps the two groups of
  properties apart.
\<close>

record cluster_member =
  member_pool :: pool_config
  member_endpoint :: settings

record config =
  cfg_connection :: "settings option"
  cfg_cluster :: "cluster_member list option"
  cfg_pool :: "pool_config option"
  useNullAsDefault :: bool

subsection \<open>The pool factory\<close>

text \<open>
  The calls a pool's \<^verbatim>\<open>acquire\<close> and \<^verbatim>\<open>dispose\<close> functions make on the dialect
  (\<^verbatim>\<open>acquireRawConnection\<close>, \<^verbatim>\<open>destroyRawConnection\<close>) and on the hooks, in order.
\<close>

datatype driver_call =
    AcquireRawConnection settings
  | AfterCreateCall raw_connection
  | BeforeDestroyCall "raw_connection option"
  | DestroyRawConnection raw_connection

text \<open>Decimal digits of a number, for lodash's \<^verbatim>\<open>uniqueId\<close>.\<close>

fun digits10 :: "nat \<Rightarrow> string" where
  "digits10 n =
     (if n < 10 then [''0123456789'' ! n]
      else digits10 (n div 10) @ [''0123456789'' ! (n mod 10)])"

declare digits10.simps [simp del]

text \<open>
  \<^verbatim>\<open>uniqueId('__knexUid')\<close> increments lodash's counter and appends it to the prefix.
\<close>

definition uniqueId :: "string \<Rightarrow> nat \<Rightarrow> nat \<times> string" where
  "uniqueId prefix idCounter = (Suc idCounter, prefix @ digits10 (Suc idCounter))"

text \<open>
  What the pool sees of one call of its \<^verbatim>\<open>acquire\<close> option: the function throws, or it
  returns and the callback has been called with an error or with a connection, or has not
  been called.
\<close>

datatype acquire_result =
    AcquireThrew js_error
  | CallbackWith "js_error + raw_connection"
  | CallbackPending

text \<open>
  The \<^verbatim>\<open>acquire\<close> option built by \<^verbatim>\<open>poolDefaults(poolConfig, coonectionSettings)\<close>:
  \<^verbatim>\<open>
  acquire(callback) {
    client.acquireRawConnection(connectionSettings)
      .tap(function(connection) {
        connection.__knexUid = uniqueId('__knexUid')
        if (poolConfig.afterCreate) {
          return Promise.promisify(poolConfig.afterCreate)(connection)
        }
      })
      .asCallback(callback)
  }
  \<close>
  The parameter of \<^verbatim>\<open>poolDefaults\<close> is spelled \<^verbatim>\<open>coonectionSettings\<close>, so the
  identifier \<^verbatim>\<open>connectionSettings\<close> in the body is not bound by it, nor by anything
  else in the module: it is looked up in the global scope, \<open>global_connectionSettings\<close>,
  and the lookup of an undefined name throws a \<^verbatim>\<open>ReferenceError\<close>.
  \<open>acquireRawConnection\<close> is the dialect's primitive and returns a promise.
  The function takes lodash's id counter and returns it updated, with the calls made and
  what the pool sees.
\<close>

definition acquire ::
  "settings option \<Rightarrow> (settings \<Rightarrow> raw_connection promise) \<Rightarrow> pool_config \<Rightarrow> nat
   \<Rightarrow> nat \<times> driver_call list \<times> acquire_result" where
  "acquire global_connectionSettings acquireRawConnection poolConfig idCounter =
     (case global_connectionSettings of
        None \<Rightarrow>
          (idCounter, [],
           AcquireThrew (JsError ReferenceError ''connectionSettings is not defined''))
      | Some cs \<Rightarrow>
          (case acquireRawConnection cs of
             Pending \<Rightarrow> (idCounter, [AcquireRawConnection cs], CallbackPending)
           | Rejected err \<Rightarrow> (idCounter, [AcquireRawConnection cs], CallbackWith (Inl err))
           | Resolved raw \<Rightarrow>
               (let (idCounter', uid) = uniqueId ''__knexUid'' idCounter;
                    connection = raw\<lparr>knexUid := Some uid\<rparr>
                in case afterCreate poolConfig of
                     None \<Rightarrow>
                       (idCounter', [AcquireRawConnection cs], CallbackWith (Inr connection))
                   | Some hook \<Rightarrow>
                       (idCounter', [AcquireRawConnection cs, AfterCreateCall connection],
                        case hook connection of
                          Done \<Rightarrow> CallbackWith (Inr connection)
                        | DoneErr err \<Rightarrow> CallbackWith (Inl err)
                        | HookThrows err \<Rightarrow> CallbackWith (Inl err)
                        | NotDone \<Rightarrow> CallbackPending))))"

text \<open>
  The \<^verbatim>\<open>dispose\<close> option:
  \<^verbatim>\<open>
  dispose(connection, callback) {
    if (poolConfig.beforeDestroy) {
      poolConfig.beforeDestroy(connection, function() {
        if (connection !== undefined) {
          client.destroyRawConnection(connection, callback)
        }
      })
    } else if (connection !== void 0) {
      client.destroyRawConnection(connection, callback)
    }
  }
  \<close>
  The result is the calls made, or the error a throwing hook lets escape. The
  continuation passed to the hook ignores its arguments, so it runs whenever the hook
  calls it.
\<close>

definition dispose :: "pool_config \<Rightarrow> raw_connection option \<Rightarrow> js_error + driver_call list" where
  "dispose poolConfig connection =
     (case beforeDestroy poolConfig of
        Some hook \<Rightarrow>
          (case hook connection of
             HookThrows err \<Rightarrow> Inl err
           | NotDone \<Rightarrow> Inr [BeforeDestroyCall connection]
           | _ \<Rightarrow>
               Inr (BeforeDestroyCall connection #
                    (case connection of None \<Rightarrow> [] | Some c \<Rightarrow> [DestroyRawConnection c])))
      | None \<Rightarrow>
          (case connection of
             None \<Rightarrow> Inr []
           | Some c \<Rightarrow> Inr [DestroyRawConnection c]))"

text \<open>
  The options object handed to Pool2's constructor, as far as the client fills it: the
  sizes, and the \<^verbatim>\<open>poolConfig\<close> that the \<^verbatim>\<open>acquire\<close> and \<^verbatim>\<open>dispose\<close> options close
  over.
\<close>

record pool_options =
  size_min :: int
  size_max :: int
  closed_over :: pool_config

text \<open>
  A pool is an instance of the Pool2 library; the client holds it as the instance that
  was constructed from some options. The constructor itself, \<^verbatim>\<open>new this.Pool(options)\<close>,
  is Pool2's code: it returns an instance or throws, and is the parameter \<open>new_Pool\<close> of
  the functions below.
\<close>

datatype pool = Pool pool_options

text \<open>
  \<^verbatim>\<open>poolDefaults(poolConfig, coonectionSettings)\<close> returns
  \<^verbatim>\<open>{min: 2, max: 10, acquire, dispose, ping}\<close>; the second parameter is never read,
  and \<^verbatim>\<open>ping\<close> forwards to the dialect.
\<close>

definition poolDefaults :: "pool_config \<Rightarrow> settings \<Rightarrow> pool_options" where
  "poolDefaults poolConfig coonectionSettings =
     \<lparr>size_min = 2, size_max = 10, closed_over = poolConfig\<rparr>"

text \<open>
  \<^verbatim>\<open>assign(defaults, poolConfig)\<close> on the sizes: a property the pool options have
  overwrites the default, and \<^verbatim>\<open>assign\<close> with \<^verbatim>\<open>undefined\<close> as source copies nothing.
\<close>

definition assign_sizes :: "pool_options \<Rightarrow> pool_config option \<Rightarrow> pool_options" where
  "assign_sizes defaults poolConfig =
     (case poolConfig of
        None \<Rightarrow> defaults
      | Some pc \<Rightarrow>
          defaults\<lparr>size_min := (case min_cfg pc of Some m \<Rightarrow> m | None \<Rightarrow> size_min defaults),
                   size_max := (case max_cfg pc of Some m \<Rightarrow> m | None \<Rightarrow> size_max defaults)\<rparr>)"

text \<open>
  The argument of the constructor in \<^verbatim>\<open>initializePool\<close>:
  \<^verbatim>\<open>assign(this.poolDefaults(poolConfig || {}, connectionSettings), poolConfig)\<close>
\<close>

definition pool_options_for :: "pool_config option \<Rightarrow> settings \<Rightarrow> pool_options" where
  "pool_options_for poolConfig connectionSettings =
     assign_sizes
       (poolDefaults
          (case poolConfig of
             Some pc \<Rightarrow> pc
           | None \<Rightarrow> \<lparr>min_cfg = None, max_cfg = None, afterCreate = None, beforeDestroy = None\<rparr>)
          connectionSettings)
       poolConfig"

text \<open>
  \<^verbatim>\<open>
  initializePool(poolConfig, connectionSettings) {
    let pool = new this.Pool(assign(this.poolDefaults(poolConfig || {}, connectionSettings), poolConfig))
    pool.on('error', ...)
    pool.on('warn', ...)
    return pool;
  }
  \<close>
  The result is the error the constructor throws, or the new pool. The two listeners
  only log.
\<close>

definition initializePool ::
  "(pool_options \<Rightarrow> js_error + pool) \<Rightarrow> pool_config option \<Rightarrow> settings \<Rightarrow> js_error + pool" where
  "initializePool new_Pool poolConfig connectionSettings =
     new_Pool (pool_options_for poolConfig connectionSettings)"

text \<open>\<^verbatim>\<open>assign\<close> on settings: each property of the source is written into the target.\<close>

fun set_prop :: "string \<Rightarrow> string \<Rightarrow> settings \<Rightarrow> settings" where
  "set_prop k v [] = [(k, v)]"
| "set_prop k v ((k', v') # ps) = (if k = k' then (k, v) # ps else (k', v') # set_prop k v ps)"

definition assign_settings :: "settings \<Rightarrow> settings \<Rightarrow> settings" where
  "assign_settings target source = foldl (\<lambda>t (k, v). set_prop k v t) target source"

text \<open>
  \<^verbatim>\<open>
  initializeCluster(clusterConfig, connectionSettings) {
    const client = this;
    const pools = clusterConfig.map(function(poolConfig) {
      return client.initializePool(poolConfig, assign(connectionSettings, poolConfig));
    });
    return new client.Pool.Cluster(pools);
  }
  \<close>
  \<^verbatim>\<open>assign\<close> writes into the one \<^verbatim>\<open>connectionSettings\<close> object, so each member sees the
  properties of the members before it. \<^verbatim>\<open>map\<close> builds the pools in order and stops at
  the first constructor that throws. \<^verbatim>\<open>new client.Pool.Cluster(pools)\<close> is Pool2's code
  as well: the parameter \<open>new_Cluster\<close>.
\<close>

datatype pool_cluster = Cluster "pool list"

fun cluster_pools ::
  "(pool_options \<Rightarrow> js_error + pool) \<Rightarrow> cluster_member list \<Rightarrow> settings
   \<Rightarrow> js_error + pool list" where
  "cluster_pools new_Pool [] connectionSettings = Inr []"
| "cluster_pools new_Pool (m # ms) connectionSettings =
     (let merged = assign_settings connectionSettings (member_endpoint m)
      in case initializePool new_Pool (Some (member_pool m)) merged of
           Inl err \<Rightarrow> Inl err
         | Inr p \<Rightarrow>
             (case cluster_pools new_Pool ms merged of
                Inl err \<Rightarrow> Inl err
              | Inr ps \<Rightarrow> Inr (p # ps)))"

definition initializeCluster ::
  "(pool_options \<Rightarrow> js_error + pool) \<Rightarrow> (pool list \<Rightarrow> js_error + pool_cluster)
   \<Rightarrow> cluster_member list \<Rightarrow> settings \<Rightarrow> js_error + pool_cluster" where
  "initializeCluster new_Pool new_Cluster clusterConfig connectionSettings =
     (case cluster_pools new_Pool clusterConfig connectionSettings of
        Inl err \<Rightarrow> Inl err
      | Inr pools \<Rightarrow> new_Cluster pools)"

subsection \<open>The client\<close>

text \<open>\<^verbatim>\<open>valueForUndefined\<close> is \<^verbatim>\<open>this.raw('DEFAULT')\<close> or \<^verbatim>\<open>null\<close>.\<close>

datatype default_value = RawDefault | NullValue

text \<open>
  The fields of the client object that \<^verbatim>\<open>client.js\<close> reads and writes. \<open>driverName\<close>
  comes from the dialect's prototype; the base client has none.
\<close>

record client =
  driverName :: "string option"
  driver :: "nat option"
  config :: "config option"
  pool :: "pool option"
  cluster :: "pool_cluster option"
  valueForUndefined :: "default_value option"

text \<open>A newly allocated object of a dialect: nothing is set but the prototype's name.\<close>

definition new_object :: "string option \<Rightarrow> client" where
  "new_object name =
     \<lparr>driverName = name, driver = None, config = None, pool = None, cluster = None,
      valueForUndefined = None\<rparr>"

subsection \<open>destroy\<close>

text \<open>\<^verbatim>\<open>this.pool || this.cluster\<close>\<close>

datatype pool_or_cluster = ThePool pool | TheCluster pool_cluster

definition pool_or_cluster :: "client \<Rightarrow> pool_or_cluster option" where
  "pool_or_cluster c =
     (case pool c of
        Some p \<Rightarrow> Some (ThePool p)
      | None \<Rightarrow> (case cluster c of Some k \<Rightarrow> Some (TheCluster k) | None \<Rightarrow> None))"

text \<open>
  Pool2's \<^verbatim>\<open>end(callback)\<close> is outside the file: within the call it has called the
  callback, or has not called it yet, or it throws.
\<close>

datatype end_result = EndCalledBack | EndNotYet | EndThrew js_error

text \<open>
  The callback \<^verbatim>\<open>destroy\<close> passes to \<^verbatim>\<open>pool.end\<close>, up to the call of the resolver:
  \<^verbatim>\<open>client.pool = undefined; client.cluster = undefined;\<close>
\<close>

definition end_callback :: "client \<Rightarrow> client" where
  "end_callback c = c\<lparr>pool := None, cluster := None\<rparr>"

text \<open>
  \<^verbatim>\<open>
  destroy(callback) {
    const client = this;
    const pool = this.pool || this.cluster;
    const promise = new Promise(function(resolver) {
      if (!pool) return resolver();
      pool.end(function() {
        client.pool = undefined;
        client.cluster = undefined;
        resolver();
      })
    })
    if (typeof callback === 'function') {
      promise.asCallback(callback);
    } else {
      return promise;
    }
  }
  \<close>
  The result is the client as the call leaves it, the promise built in the body, and the
  value returned: the promise, or nothing when a callback was given. A promise left
  \<open>Pending\<close> resolves when Pool2 calls the callback later, which then applies
  \<open>end_callback\<close> to the client as it is at that time.
\<close>

definition destroy ::
  "(pool_or_cluster \<Rightarrow> end_result) \<Rightarrow> client \<Rightarrow> bool
   \<Rightarrow> client \<times> unit promise \<times> unit promise option" where
  "destroy pool_end this has_callback =
     (let (this', promise) =
            (case pool_or_cluster this of
               None \<Rightarrow> (this, Resolved ())
             | Some p \<Rightarrow>
                 (case pool_end p of
                    EndCalledBack \<Rightarrow> (end_callback this, Resolved ())
                  | EndNotYet \<Rightarrow> (this, Pending)
                  | EndThrew err \<Rightarrow> (this, Rejected err)))
      in (this', promise, if has_callback then None else Some promise))"

subsection \<open>The constructor\<close>

text \<open>
  How a call of the constructor ends: it returns the object, or it throws and leaves the
  object as it was at the throw, or the process exits.
\<close>

datatype construction = Constructed client | Threw js_error client | ProcessExit

text \<open>
  \<^verbatim>\<open>
  initializeDriver() {
    try {
      this.driver = this._driver();
    } catch (e) {
      helpers.exit(`Knex: run\n$ npm install ${this.driverName} --save\n${e.stack}`);
    }
  }
  \<close>
  \<open>load_driver\<close> is the dialect's \<^verbatim>\<open>_driver()\<close>: the error it throws or the driver
  module.

  Modelled from the spec: \<^verbatim>\<open>helpers.exit\<close> (src/helpers.js) is not among the sources;
  the specification has a driver that cannot be loaded terminate the process with
  installation guidance, so a failed load ends in \<open>None\<close>, the process exit.
\<close>

definition initializeDriver :: "(js_error + nat) \<Rightarrow> client \<Rightarrow> client option" where
  "initializeDriver load_driver this =
     (case load_driver of
        Inr d \<Rightarrow> Some (this\<lparr>driver := Some d\<rparr>)
      | Inl e \<Rightarrow> None)"

text \<open>A string is truthy unless it is empty; an absent property is falsy.\<close>

definition truthy_name :: "string option \<Rightarrow> bool" where
  "truthy_name n = (case n of None \<Rightarrow> False | Some s \<Rightarrow> s \<noteq> [])"

text \<open>
  \<^verbatim>\<open>
  function Client(config = {}) {
    this.config = config;
    const connectionSettings = cloneDeep(config.connection || {});
    if (this.driverName && (config.connection || config.cluster)) {
      this.initializeDriver();

      if (this.pool || this.cluster) this.destroy();
      if (config.pool && config.cluster) {
        throw new Error("Cannot specify both pool and cluster in config");
      }

      if (config.pool && config.pool.max !== 0) {
        this.pool = this.initializePool(config.pool, connectionSettings);
      }

      if (config.cluster) {
        this.cluster = this.initializeCluster(config.cluster, connectionSettings);
      }
    }
    this.valueForUndefined = this.raw('DEFAULT');
    if (config.useNullAsDefault) {
      this.valueForUndefined = null
    }
  }
  \<close>
  \<open>this\<close> is the object the constructor is called on. In the configuration \<open>None\<close> is
  an absent property and \<open>Some\<close> an object, which is truthy. An error thrown by a
  constructor of Pool2 inside \<^verbatim>\<open>initializePool\<close> or \<^verbatim>\<open>initializeCluster\<close> leaves the
  constructor, before the assignment to \<^verbatim>\<open>this.pool\<close> or \<^verbatim>\<open>this.cluster\<close>.
\<close>

definition set_valueForUndefined :: "config \<Rightarrow> client \<Rightarrow> client" where
  "set_valueForUndefined cfg this =
     this\<lparr>valueForUndefined := Some (if useNullAsDefault cfg then NullValue else RawDefault)\<rparr>"

definition Client ::
  "(js_error + nat) \<Rightarrow> (pool_options \<Rightarrow> js_error + pool)
   \<Rightarrow> (pool list \<Rightarrow> js_error + pool_cluster) \<Rightarrow> (pool_or_cluster \<Rightarrow> end_result)
   \<Rightarrow> client \<Rightarrow> config \<Rightarrow> construction" where
  "Client load_driver new_Pool new_Cluster pool_end this0 cfg =
     (let this1 = this0\<lparr>config := Some cfg\<rparr>;
          connectionSettings = (case cfg_connection cfg of Some s \<Rightarrow> s | None \<Rightarrow> [])
      in if truthy_name (driverName this1)
            \<and> (cfg_connection cfg \<noteq> None \<or> cfg_cluster cfg \<noteq> None)
         then
           (case initializeDriver load_driver this1 of
              None \<Rightarrow> ProcessExit
            | Some this2 \<Rightarrow>
                (let this3 = (if pool this2 \<noteq> None \<or> cluster this2 \<noteq> None
                              then fst (destroy pool_end this2 False) else this2)
                 in if cfg_pool cfg \<noteq> None \<and> cfg_cluster cfg \<noteq> None
                    then Threw (JsError Error ''Cannot specify both pool and cluster in config'')
                           this3
                    else
                      (case (case cfg_pool cfg of
                               Some pc \<Rightarrow>
                                 (if max_cfg pc \<noteq> Some 0
                                  then (case initializePool new_Pool (Some pc) connectionSettings of
                                          Inl err \<Rightarrow> Inl err
                                        | Inr p \<Rightarrow> Inr (this3\<lparr>pool := Some p\<rparr>))
                                  else Inr this3)
                             | None \<Rightarrow> Inr this3) of
                         Inl err \<Rightarrow> Threw err this3
                       | Inr this4 \<Rightarrow>
                           (case cfg_cluster cfg of
                              Some cc \<Rightarrow>
                                (case initializeCluster new_Pool new_Cluster cc connectionSettings of
                                   Inl err \<Rightarrow> Threw err this4
                                 | Inr k \<Rightarrow>
                                     Constructed
                                       (set_valueForUndefined cfg (this4\<lparr>cluster := Some k\<rparr>)))
                            | None \<Rightarrow> Constructed (set_valueForUndefined cfg this4)))))
         else Constructed (set_valueForUndefined cfg this1))"

subsection \<open>acquireConnection\<close>

text \<open>
  The request object Pool2's \<^verbatim>\<open>acquire\<close> returns. The client reads its
  \<^verbatim>\<open>fulfilled\<close> property and calls its \<^verbatim>\<open>abort\<close> method; \<open>request_id\<close> tells
  requests apart.
\<close>

record request_obj =
  request_id :: nat
  fulfilled :: bool

type_synonym capability = string

text \<open>
  The function the client is about to call. The source reads
  \<^verbatim>\<open>const acquire = client.cluster ? client.pool.acquire.bind(client, capability);\<close>
  a conditional with a condition and a consequent and no alternative. The embedding keeps
  the condition and the consequent as written: the consequent is the pool's \<^verbatim>\<open>acquire\<close>
  method with \<^verbatim>\<open>this\<close> bound to the client and \<^verbatim>\<open>capability\<close> as first argument.
  The alternative that is not there is \<open>NoAlternative\<close>; what calling it does is left to
  the parameter \<open>call_acquire\<close> of \<open>acquireConnection\<close>. Nowhere does the source
  mention the \<^verbatim>\<open>acquire\<close> of \<^verbatim>\<open>client.cluster\<close>.
\<close>

datatype acquire_fn = PoolAcquireBoundToClient pool capability | NoAlternative

text \<open>
  Reading \<^verbatim>\<open>client.pool.acquire\<close> when \<^verbatim>\<open>client.pool\<close> is \<^verbatim>\<open>undefined\<close> throws a
  \<^verbatim>\<open>TypeError\<close> (the message is the engine's).
\<close>

definition select_acquire :: "client \<Rightarrow> capability \<Rightarrow> js_error + acquire_fn" where
  "select_acquire c capability =
     (if cluster c \<noteq> None
      then (case pool c of
              None \<Rightarrow> Inl (JsError TypeError ''Cannot read property 'acquire' of undefined'')
            | Some p \<Rightarrow> Inr (PoolAcquireBoundToClient p capability))
      else Inr NoAlternative)"

text \<open>
  A call \<^verbatim>\<open>acquire(callback)\<close> into Pool2 throws, or returns a request object (or
  \<^verbatim>\<open>undefined\<close>), having called the callback with \<^verbatim>\<open>(err, connection)\<close> or not yet.
\<close>

datatype acquire_call =
    CallThrew js_error
  | CallReturned "request_obj option" "(js_error + raw_connection) option"

text \<open>
  The callback given to \<^verbatim>\<open>acquire\<close>:
  \<^verbatim>\<open>
  function(err, connection) {
    if (err) return rejecter(err)
    client.emit("acquireConnection", domain.active, connection);
    debug('acquired connection from pool: %s', connection.__knexUid)
    resolver(connection)
  }
  \<close>
\<close>

definition acquire_callback ::
  "domain \<Rightarrow> js_error + raw_connection \<Rightarrow> event list \<times> raw_connection promise" where
  "acquire_callback active args =
     (case args of
        Inl err \<Rightarrow> ([], Rejected err)
      | Inr connection \<Rightarrow> ([AcquireConnectionEvent active connection], Resolved connection))"

text \<open>
  What \<^verbatim>\<open>acquireConnection\<close> leaves behind: the promise \<^verbatim>\<open>completed\<close>, the variable
  \<^verbatim>\<open>request\<close> that the \<^verbatim>\<open>abort\<close> closure reads, and the events emitted.
\<close>

record acquisition =
  completed :: "raw_connection promise"
  request :: "request_obj option"
  emitted :: "event list"

text \<open>
  \<^verbatim>\<open>
  acquireConnection(capability) {
    const client = this;
    let request = null;
    const completed = new Promise(function(resolver, rejecter) {
      if (!client.pool && !client.cluster) {
        return rejecter(new Error('There is no pool defined on the current client'))
      }
      const acquire = client.cluster ? client.pool.acquire.bind(client, capability);
      request = acquire(function(err, connection) { ... })
    })
    const abort = function(reason) { ... }
    return { completed: completed, abort: abort }
  }
  \<close>
  An exception inside the executor rejects the promise and leaves \<^verbatim>\<open>request\<close> at
  \<^verbatim>\<open>null\<close>.
\<close>

definition acquireConnection ::
  "(acquire_fn \<Rightarrow> acquire_call) \<Rightarrow> domain \<Rightarrow> client \<Rightarrow> capability \<Rightarrow> acquisition" where
  "acquireConnection call_acquire active c capability =
     (if pool c = None \<and> cluster c = None
      then \<lparr>completed = Rejected (JsError Error ''There is no pool defined on the current client''),
            request = None, emitted = []\<rparr>
      else
        (case select_acquire c capability of
           Inl err \<Rightarrow> \<lparr>completed = Rejected err, request = None, emitted = []\<rparr>
         | Inr f \<Rightarrow>
             (case call_acquire f of
                CallThrew err \<Rightarrow> \<lparr>completed = Rejected err, request = None, emitted = []\<rparr>
              | CallReturned req None \<Rightarrow> \<lparr>completed = Pending, request = req, emitted = []\<rparr>
              | CallReturned req (Some args) \<Rightarrow>
                  (let (events, p) = acquire_callback active args
                   in \<lparr>completed = p, request = req, emitted = events\<rparr>))))"

text \<open>
  \<^verbatim>\<open>
  const abort = function(reason) {
    if (request && !request.fulfilled) {
      request.abort(reason)
    }
  }
  \<close>
  The result is the call made on the request, if any: \<open>Some reason\<close> is
  \<^verbatim>\<open>request.abort(reason)\<close>.
\<close>

definition abort :: "request_obj option \<Rightarrow> string \<Rightarrow> string option" where
  "abort req reason =
     (case req of
        None \<Rightarrow> None
      | Some r \<Rightarrow> if \<not> fulfilled r then Some reason else None)"

text \<open>
  Calling \<^verbatim>\<open>abort\<close> once for each reason of a list. \<open>request_abort\<close> is Pool2's
  \<^verbatim>\<open>request.abort\<close>, which may change the request. The result is the request at the end
  and the calls that reached Pool2, each with the request as it was at that call.
\<close>

fun aborts ::
  "(request_obj \<Rightarrow> string \<Rightarrow> request_obj) \<Rightarrow> request_obj option \<Rightarrow> string list
   \<Rightarrow> request_obj option \<times> (request_obj \<times> string) list" where
  "aborts request_abort req [] = (req, [])"
| "aborts request_abort req (reason # reasons) =
     (case (req, abort req reason) of
        (Some r, Some passed) \<Rightarrow>
          (let (req', calls) = aborts request_abort (Some (request_abort r passed)) reasons
           in (req', (r, passed) # calls))
      | _ \<Rightarrow> aborts request_abort req reasons)"

subsection \<open>Sample collaborators\<close>

text \<open>
  Concrete handles, drivers, hooks and pool behaviours, at which the theorems below are
  instantiated. \<open>render_sample\<close> renders the specification's example statement the way
  the specification shows it, and leaves every other statement as it is.
\<close>

definition sample_connection :: raw_connection where
  "sample_connection = \<lparr>resource = 7, knexUid = Some ''__knexUid1''\<rparr>"

definition sample_request :: request where
  "sample_request = QueryObj \<lparr>sql = ''SELECT ? AS x'', bindings = Some [BNum 1]\<rparr>"

definition render_sample :: "string \<Rightarrow> binding list option \<Rightarrow> string" where
  "render_sample s bs =
     (if s = ''SELECT ? AS x'' \<and> bs = Some [BNum 1] then ''SELECT 1 AS x'' else s)"

definition failing_query :: "raw_connection \<Rightarrow> query_obj \<Rightarrow> nat promise" where
  "failing_query c obj = Rejected (JsError DriverError ''boom'')"


definition failing_stream :: "raw_connection \<Rightarrow> query_obj \<Rightarrow> unit \<Rightarrow> unit \<Rightarrow> nat promise" where
  "failing_stream c obj sink options = Rejected (JsError DriverError ''boom'')"

definition end_at_once :: "pool_or_cluster \<Rightarrow> end_result" where
  "end_at_once p = EndCalledBack"

definition connect_ok :: "settings \<Rightarrow> raw_connection promise" where
  "connect_ok cs = Resolved \<lparr>resource = 1, knexUid = None\<rparr>"

definition failing_hook :: hook where
  "failing_hook c = DoneErr (JsError Error ''afterCreate failed'')"

definition handing_out :: "acquire_fn \<Rightarrow> acquire_call" where
  "handing_out f =
     CallReturned (Some \<lparr>request_id = 1, fulfilled = True\<rparr>) (Some (Inr sample_connection))"

definition marks_fulfilled :: "request_obj \<Rightarrow> string \<Rightarrow> request_obj" where
  "marks_fulfilled r reason = r\<lparr>fulfilled := True\<rparr>"

definition no_hooks :: pool_config where
  "no_hooks = \<lparr>min_cfg = None, max_cfg = None, afterCreate = None, beforeDestroy = None\<rparr>"

definition sample_member :: cluster_member where
  "sample_member = \<lparr>member_pool = no_hooks, member_endpoint = [(''host'', ''replica'')]\<rparr>"

text \<open>
  A pool constructor that refuses sizes the way Pool2's does: a negative \<open>min\<close>, a
  \<open>max\<close> below 1, a \<open>min\<close> above \<open>max\<close>. The message stands for the library's.
\<close>

definition checking_Pool :: "pool_options \<Rightarrow> js_error + pool" where
  "checking_Pool options =
     (if size_min options < 0 \<or> size_max options < 1 \<or> size_max options < size_min options
      then Inl (JsError RangeError ''Pool2: invalid pool size'')
      else Inr (Pool options))"

definition plain_Cluster :: "pool list \<Rightarrow> js_error + pool_cluster" where
  "plain_Cluster pools = Inr (Cluster pools)"

definition pooled_client :: client where
  "pooled_client =
     (new_object (Some ''pg''))\<lparr>pool :=
        Some (Pool \<lparr>size_min = 2, size_max = 10, closed_over = no_hooks\<rparr>)\<rparr>"

definition both_cfg :: config where
  "both_cfg =
     \<lparr>cfg_connection = None, cfg_cluster = Some [sample_member], cfg_pool = Some no_hooks,
      useNullAsDefault = False\<rparr>"

definition connection_only_cfg :: config where
  "connection_only_cfg =
     \<lparr>cfg_connection = Some [(''host'', ''localhost'')], cfg_cluster = None, cfg_pool = None,
      useNullAsDefault = False\<rparr>"

definition hooked_config :: pool_config where
  "hooked_config = no_hooks\<lparr>afterCreate := Some failing_hook\<rparr>"

definition cluster_cfg :: config where
  "cluster_cfg =
     \<lparr>cfg_connection = Some [(''user'', ''app'')], cfg_cluster = Some [sample_member],
      cfg_pool = None, useNullAsDefault = False\<rparr>"

definition pending_request :: request_obj where
  "pending_request = \<lparr>request_id = 1, fulfilled = False\<rparr>"

section \<open>Properties\<close>

subsection \<open>wrapIdentifier\<close>

lemma replace_dquote_concat:
  "replace_dquote s = concat (map (\<lambda>c. if c = CHR 0x22 then [CHR 0x22, CHR 0x22] else [c]) s)"
  by (induction s) simp_all

lemma undouble_replace_dquote: "undouble (replace_dquote s @ [CHR 0x22]) = s @ [CHR 0x22]"
proof (induction s)
  case Nil
  show ?case by simp
next
  case (Cons c cs)
  show ?case
  proof (cases "c = CHR 0x22")
    case True
    with Cons show ?thesis by simp
  next
    case False
    have "replace_dquote cs @ [CHR 0x22] \<noteq> []" by simp
    then obtain d ds where ds: "replace_dquote cs @ [CHR 0x22] = d # ds"
      by (cases "replace_dquote cs @ [CHR 0x22]") auto
    with False Cons show ?thesis by simp
  qed
qed

lemma length_replace_dquote:
  "length (replace_dquote s) = length s + count_list s (CHR 0x22)"
  by (induction s) simp_all

text \<open>
  C9. For every string \<open>name\<close>, \<open>wrapIdentifier name\<close> is \<open>name\<close> between double quotes
  with every embedded double quote doubled, except that \<open>wrapIdentifier ''*''\<close> is
  \<open>''*''\<close> unchanged; \<open>wrapIdentifier\<close> of \<open>a"b\<close> is \<open>"a""b"\<close>. The interior of the
  result loses nothing: undoing the doubling gives the name back.
\<close>

theorem wrapIdentifier_quotes:
  \<open>wrapIdentifier ''*'' = ''*''
   \<and> (name \<noteq> ''*'' \<longrightarrow>
        wrapIdentifier name = double_quoted_spec name
        \<and> undouble (tl (wrapIdentifier name)) = name @ [CHR 0x22]
        \<and> length (wrapIdentifier name) = length name + count_list name (CHR 0x22) + 2)
   \<and> wrapIdentifier ''a"b'' = ''"a""b"''\<close>
  by (simp add: wrapIdentifier_def double_quoted_spec_def replace_dquote_concat [symmetric]
      undouble_replace_dquote length_replace_dquote)

theorem wrapIdentifier_quotes_witness:
  \<open>''say "hi"'' \<noteq> ''*''
   \<and> wrapIdentifier ''say "hi"'' = ''"say ""hi"""''
   \<and> double_quoted_spec ''say "hi"'' = ''"say ""hi"""''
   \<and> wrapIdentifier ''*'' = ''*''\<close>
  using wrapIdentifier_quotes [of \<open>''say "hi"''\<close>]
  by (simp add: double_quoted_spec_def)

subsection \<open>query and stream\<close>



lemma query_first_event:
  "take 1 (fst (query format driver_query c req)) = [QueryEvent (tagged c (normalize req))]"
  by (cases "driver_query c (normalize req)") (simp_all add: query_def query_catch_def Let_def)



text \<open>
  C8. For every handle and request, \<open>stream\<close> normalizes the request as \<open>query\<close> does
  and emits the same \<open>query\<close> event, tagged with the handle's identifier, before the
  dispatch; what the driver's streaming primitive returns is returned as it is, so a
  failure keeps its message and no \<open>query-error\<close> event is emitted.
\<close>

theorem stream_errors_surface_unmodified:
  "fst (stream driver_stream c req sink options) = [QueryEvent (tagged c (normalize req))]
   \<and> fst (stream driver_stream c req sink options) = take 1 (fst (query format driver_query c req))
   \<and> tag (tagged c (normalize req)) = knexUid c
   \<and> snd (stream driver_stream c (SqlText s) sink options) =
       driver_stream c \<lparr>sql = s, bindings = None\<rparr> sink options
   \<and> snd (stream driver_stream c req sink options) = driver_stream c (normalize req) sink options
   \<and> (driver_stream c (normalize req) sink options = Rejected e \<longrightarrow>
        snd (stream driver_stream c req sink options) = Rejected e
        \<and> (\<forall>err p. QueryErrorEvent err p \<notin> set (fst (stream driver_stream c req sink options))))"
proof (intro conjI)
  show "fst (stream driver_stream c req sink options) = [QueryEvent (tagged c (normalize req))]"
    by (simp add: stream_def Let_def)
  then show "fst (stream driver_stream c req sink options)
      = take 1 (fst (query format driver_query c req))"
    by (simp only: query_first_event)
  show "tag (tagged c (normalize req)) = knexUid c"
    by (simp add: tagged_def)
  show "snd (stream driver_stream c (SqlText s) sink options) =
       driver_stream c \<lparr>sql = s, bindings = None\<rparr> sink options"
    by (simp add: stream_def Let_def)
  show "snd (stream driver_stream c req sink options) = driver_stream c (normalize req) sink options"
    by (simp add: stream_def Let_def)
  show "driver_stream c (normalize req) sink options = Rejected e \<longrightarrow>
        snd (stream driver_stream c req sink options) = Rejected e
        \<and> (\<forall>err p. QueryErrorEvent err p \<notin> set (fst (stream driver_stream c req sink options)))"
    by (simp add: stream_def Let_def)
qed

theorem stream_errors_surface_unmodified_witness:
  "failing_stream sample_connection (normalize sample_request) () () =
     Rejected (JsError DriverError ''boom'')
   \<and> stream failing_stream sample_connection sample_request () () =
       ([QueryEvent \<lparr>sql = ''SELECT ? AS x'', bindings = Some [BNum 1], tag = Some ''__knexUid1''\<rparr>],
        Rejected (JsError DriverError ''boom''))"
  using stream_errors_surface_unmodified [of failing_stream sample_connection sample_request
          "()" "()" render_sample failing_query "''x''" "JsError DriverError ''boom''"]
  by (simp add: failing_stream_def sample_connection_def sample_request_def tagged_def prod_eq_iff)

subsection \<open>destroy and the pool options\<close>







lemma initializePool_hands_over:
  "initializePool new_Pool poolConfig cs = new_Pool (pool_options_for poolConfig cs)"
  by (simp add: initializePool_def)

text \<open>
  C10, as amended. For every pool configuration, the options \<open>initializePool\<close> hands to
  the pool constructor have \<open>min = 2\<close> where the configuration omits \<open>min\<close> and
  \<open>max = 10\<close> where it omits \<open>max\<close>; a size the caller supplies replaces the default of
  that field only. The pool is the one the constructor makes of these options, and when
  the constructor throws, \<open>initializePool\<close> throws that error and there is no pool.
\<close>

theorem pool_default_sizes:
  "initializePool new_Pool (Some pc) cs = new_Pool (pool_options_for (Some pc) cs)
   \<and> (min_cfg pc = None \<longrightarrow> size_min (pool_options_for (Some pc) cs) = 2)
   \<and> (max_cfg pc = None \<longrightarrow> size_max (pool_options_for (Some pc) cs) = 10)
   \<and> (min_cfg pc = Some m \<longrightarrow> size_min (pool_options_for (Some pc) cs) = m)
   \<and> (max_cfg pc = Some n \<longrightarrow> size_max (pool_options_for (Some pc) cs) = n)
   \<and> closed_over (pool_options_for (Some pc) cs) = pc
   \<and> size_min (pool_options_for None cs) = 2
   \<and> size_max (pool_options_for None cs) = 10
   \<and> (new_Pool (pool_options_for (Some pc) cs) = Inr p \<longrightarrow>
        initializePool new_Pool (Some pc) cs = Inr p)
   \<and> (new_Pool (pool_options_for (Some pc) cs) = Inl e \<longrightarrow>
        initializePool new_Pool (Some pc) cs = Inl e)"
  by (simp add: initializePool_hands_over pool_options_for_def poolDefaults_def assign_sizes_def)

theorem pool_default_sizes_witness:
  "min_cfg no_hooks = None \<and> max_cfg no_hooks = None
   \<and> pool_options_for (Some no_hooks) [] =
       \<lparr>size_min = 2, size_max = 10, closed_over = no_hooks\<rparr>
   \<and> initializePool checking_Pool (Some no_hooks) [] =
       Inr (Pool \<lparr>size_min = 2, size_max = 10, closed_over = no_hooks\<rparr>)
   \<and> min_cfg (no_hooks\<lparr>min_cfg := Some 1, max_cfg := Some 5\<rparr>) = Some 1
   \<and> max_cfg (no_hooks\<lparr>min_cfg := Some 1, max_cfg := Some 5\<rparr>) = Some 5
   \<and> size_min (pool_options_for (Some (no_hooks\<lparr>min_cfg := Some 1, max_cfg := Some 5\<rparr>)) []) = 1
   \<and> size_max (pool_options_for (Some (no_hooks\<lparr>min_cfg := Some 1, max_cfg := Some 5\<rparr>)) []) = 5
   \<and> initializePool checking_Pool (Some (no_hooks\<lparr>max_cfg := Some 1\<rparr>)) [] =
       Inl (JsError RangeError ''Pool2: invalid pool size'')"
  using pool_default_sizes [of checking_Pool no_hooks "[]" 1 5
          "Pool \<lparr>size_min = 2, size_max = 10, closed_over = no_hooks\<rparr>"
          "JsError RangeError ''Pool2: invalid pool size''"]
        pool_default_sizes [of checking_Pool "no_hooks\<lparr>min_cfg := Some 1, max_cfg := Some 5\<rparr>"
          "[]" 1 5
          "Pool \<lparr>size_min = 1, size_max = 5,
             closed_over = no_hooks\<lparr>min_cfg := Some 1, max_cfg := Some 5\<rparr>\<rparr>"
          "JsError RangeError ''Pool2: invalid pool size''"]
        pool_default_sizes [of checking_Pool "no_hooks\<lparr>max_cfg := Some 1\<rparr>" "[]" 1 1
          "Pool \<lparr>size_min = 2, size_max = 10, closed_over = no_hooks\<rparr>"
          "JsError RangeError ''Pool2: invalid pool size''"]
  by (simp add: no_hooks_def checking_Pool_def pool_options_for_def poolDefaults_def
      assign_sizes_def)

text \<open>
  C10 as stated fails: the pool options \<^verbatim>\<open>{max: 1}\<close> omit \<open>min\<close>, the options handed
  to the constructor have the default \<open>min = 2\<close> above \<open>max = 1\<close>, a constructor that
  checks its sizes throws, and no pool is created.
\<close>

theorem default_min_above_supplied_max:
  "min_cfg (no_hooks\<lparr>max_cfg := Some 1\<rparr>) = None
   \<and> pool_options_for (Some (no_hooks\<lparr>max_cfg := Some 1\<rparr>)) [] =
       \<lparr>size_min = 2, size_max = 1, closed_over = no_hooks\<lparr>max_cfg := Some 1\<rparr>\<rparr>
   \<and> initializePool checking_Pool (Some (no_hooks\<lparr>max_cfg := Some 1\<rparr>)) [] =
       Inl (JsError RangeError ''Pool2: invalid pool size'')"
  by (simp add: initializePool_def no_hooks_def checking_Pool_def pool_options_for_def
      poolDefaults_def assign_sizes_def)

subsection \<open>The constructor\<close>


lemma Client_throws_on_both:
  assumes "truthy_name (driverName this)" "cfg_pool cfg \<noteq> None" "cfg_cluster cfg \<noteq> None"
  shows "\<exists>left. Client (Inr d) new_Pool new_Cluster pool_end this cfg =
           Threw (JsError Error ''Cannot specify both pool and cluster in config'') left"
  using assms by (simp add: Client_def Let_def initializeDriver_def)

lemma Client_new_throws_on_both:
  assumes "name \<noteq> []" "cfg_pool cfg \<noteq> None" "cfg_cluster cfg \<noteq> None"
  shows "Client (Inr d) new_Pool new_Cluster pool_end (new_object (Some name)) cfg =
           Threw (JsError Error ''Cannot specify both pool and cluster in config'')
             ((new_object (Some name))\<lparr>driver := Some d, config := Some cfg\<rparr>)"
  using assms by (simp add: Client_def Let_def initializeDriver_def new_object_def truthy_name_def)

lemma Client_without_driverName:
  assumes "\<not> truthy_name (driverName this)"
  shows "Client load_driver new_Pool new_Cluster pool_end this cfg =
           Constructed (set_valueForUndefined cfg (this\<lparr>config := Some cfg\<rparr>))"
  using assms by (simp add: Client_def Let_def)

text \<open>
  C3, as amended. For every configuration that specifies both \<open>pool\<close> and \<open>cluster\<close>:
  the constructor of a client whose dialect has a non-empty \<open>driverName\<close> and whose
  driver loads throws "Cannot specify both pool and cluster in config", and on a new
  object neither pool nor cluster has been set at the throw. A client without a
  \<open>driverName\<close> is constructed without an error, and its pool and cluster are not
  touched.
\<close>

theorem both_pool_and_cluster_rejected:
  "(truthy_name (driverName this) \<and> cfg_pool cfg \<noteq> None \<and> cfg_cluster cfg \<noteq> None \<longrightarrow>
      (\<exists>left. Client (Inr d) new_Pool new_Cluster pool_end this cfg =
         Threw (JsError Error ''Cannot specify both pool and cluster in config'') left))
   \<and> (name \<noteq> [] \<and> cfg_pool cfg \<noteq> None \<and> cfg_cluster cfg \<noteq> None \<longrightarrow>
        Client (Inr d) new_Pool new_Cluster pool_end (new_object (Some name)) cfg =
          Threw (JsError Error ''Cannot specify both pool and cluster in config'')
            ((new_object (Some name))\<lparr>driver := Some d, config := Some cfg\<rparr>)
        \<and> pool ((new_object (Some name))\<lparr>driver := Some d, config := Some cfg\<rparr>) = None
        \<and> cluster ((new_object (Some name))\<lparr>driver := Some d, config := Some cfg\<rparr>) = None)
   \<and> (\<not> truthy_name (driverName this) \<longrightarrow>
        Client load_driver new_Pool new_Cluster pool_end this cfg =
          Constructed (set_valueForUndefined cfg (this\<lparr>config := Some cfg\<rparr>))
        \<and> pool (set_valueForUndefined cfg (this\<lparr>config := Some cfg\<rparr>)) = pool this
        \<and> cluster (set_valueForUndefined cfg (this\<lparr>config := Some cfg\<rparr>)) = cluster this)"
proof (intro conjI impI)
  assume "truthy_name (driverName this) \<and> cfg_pool cfg \<noteq> None \<and> cfg_cluster cfg \<noteq> None"
  then show "\<exists>left. Client (Inr d) new_Pool new_Cluster pool_end this cfg =
         Threw (JsError Error ''Cannot specify both pool and cluster in config'') left"
    by (simp add: Client_throws_on_both)
next
  assume "name \<noteq> [] \<and> cfg_pool cfg \<noteq> None \<and> cfg_cluster cfg \<noteq> None"
  then show "Client (Inr d) new_Pool new_Cluster pool_end (new_object (Some name)) cfg =
          Threw (JsError Error ''Cannot specify both pool and cluster in config'')
            ((new_object (Some name))\<lparr>driver := Some d, config := Some cfg\<rparr>)"
    by (simp add: Client_new_throws_on_both)
next
  show "pool ((new_object (Some name))\<lparr>driver := Some d, config := Some cfg\<rparr>) = None"
    and "cluster ((new_object (Some name))\<lparr>driver := Some d, config := Some cfg\<rparr>) = None"
    by (simp_all add: new_object_def)
next
  assume "\<not> truthy_name (driverName this)"
  then show "Client load_driver new_Pool new_Cluster pool_end this cfg =
          Constructed (set_valueForUndefined cfg (this\<lparr>config := Some cfg\<rparr>))"
    by (rule Client_without_driverName)
next
  show "pool (set_valueForUndefined cfg (this\<lparr>config := Some cfg\<rparr>)) = pool this"
    and "cluster (set_valueForUndefined cfg (this\<lparr>config := Some cfg\<rparr>)) = cluster this"
    by (simp_all add: set_valueForUndefined_def)
qed

theorem both_pool_and_cluster_rejected_witness:
  "truthy_name (driverName (new_object (Some ''pg'')))
   \<and> ''pg'' \<noteq> []
   \<and> cfg_pool both_cfg \<noteq> None \<and> cfg_cluster both_cfg \<noteq> None
   \<and> Client (Inr 0) checking_Pool plain_Cluster end_at_once (new_object (Some ''pg'')) both_cfg =
       Threw (JsError Error ''Cannot specify both pool and cluster in config'')
         \<lparr>driverName = Some ''pg'', driver = Some 0, config = Some both_cfg, pool = None,
          cluster = None, valueForUndefined = None\<rparr>
   \<and> \<not> truthy_name (driverName (new_object None))
   \<and> Client (Inr 0) checking_Pool plain_Cluster end_at_once (new_object None) both_cfg =
       Constructed
         \<lparr>driverName = None, driver = None, config = Some both_cfg, pool = None,
          cluster = None, valueForUndefined = Some RawDefault\<rparr>"
  using both_pool_and_cluster_rejected [of "new_object (Some ''pg'')" both_cfg 0 checking_Pool
          plain_Cluster end_at_once "''pg''" "Inr 0"]
        both_pool_and_cluster_rejected [of "new_object None" both_cfg 0 checking_Pool
          plain_Cluster end_at_once "''pg''" "Inr 0"]
  by (simp add: new_object_def truthy_name_def both_cfg_def set_valueForUndefined_def)

text \<open>
  C3 as stated fails: the base client has no \<open>driverName\<close>, and its constructor returns
  normally on a configuration with both \<open>pool\<close> and \<open>cluster\<close>.
\<close>

theorem base_client_accepts_pool_and_cluster:
  "cfg_pool both_cfg \<noteq> None \<and> cfg_cluster both_cfg \<noteq> None
   \<and> Client (Inr 0) checking_Pool plain_Cluster end_at_once (new_object None) both_cfg =
       Constructed
         \<lparr>driverName = None, driver = None, config = Some both_cfg, pool = None,
          cluster = None, valueForUndefined = Some RawDefault\<rparr>"
  by (simp add: Client_def Let_def new_object_def truthy_name_def both_cfg_def
      set_valueForUndefined_def)

lemma Client_without_pool_options:
  assumes "name \<noteq> []" "cfg_connection cfg = Some cs" "cfg_cluster cfg = None"
    "cfg_pool cfg = None \<or> (\<exists>pc. cfg_pool cfg = Some pc \<and> max_cfg pc = Some 0)"
  shows "Client (Inr d) new_Pool new_Cluster pool_end (new_object (Some name)) cfg =
           Constructed
             (set_valueForUndefined cfg
                ((new_object (Some name))\<lparr>config := Some cfg, driver := Some d\<rparr>))"
  using assms
  by (auto simp add: Client_def Let_def initializeDriver_def new_object_def truthy_name_def)

lemma Client_with_pool_options:
  assumes "name \<noteq> []" "cfg_connection cfg = Some cs" "cfg_cluster cfg = None"
    "cfg_pool cfg = Some pc" "max_cfg pc \<noteq> Some 0"
  shows "Client (Inr d) new_Pool new_Cluster pool_end (new_object (Some name)) cfg =
           (case new_Pool (pool_options_for (Some pc) cs) of
              Inl e \<Rightarrow> Threw e ((new_object (Some name))\<lparr>config := Some cfg, driver := Some d\<rparr>)
            | Inr p \<Rightarrow>
                Constructed
                  (set_valueForUndefined cfg
                     ((new_object (Some name))\<lparr>config := Some cfg, driver := Some d,
                        pool := Some p\<rparr>)))"
  using assms
  by (cases "new_Pool (pool_options_for (Some pc) cs)")
     (simp_all add: Client_def Let_def initializeDriver_def new_object_def truthy_name_def
       initializePool_def)

text \<open>
  C4, as amended. For every configuration with connection settings and without a
  cluster, on a new client whose dialect has a non-empty \<open>driverName\<close> and whose driver
  loads: with \<open>pool\<close> omitted and with \<open>pool.max = 0\<close> the constructor returns a client
  without a pool, whatever the pool constructor would do; with \<open>pool\<close> options whose
  \<open>max\<close> is not \<open>0\<close> it hands the merged options to the pool constructor, the client
  has the pool that constructor returns, and if the constructor throws, the client's
  constructor throws that error and no pool is set.
\<close>

theorem pool_built_only_from_pool_options:
  "name \<noteq> [] \<and> cfg_connection cfg = Some cs \<and> cfg_cluster cfg = None \<longrightarrow>
     (cfg_pool cfg = None \<or> (\<exists>pc. cfg_pool cfg = Some pc \<and> max_cfg pc = Some 0) \<longrightarrow>
        (\<exists>t. Client (Inr d) new_Pool new_Cluster pool_end (new_object (Some name)) cfg
               = Constructed t
           \<and> pool t = None \<and> cluster t = None))
     \<and> (cfg_pool cfg = Some pc \<and> max_cfg pc \<noteq> Some 0
          \<and> new_Pool (pool_options_for (Some pc) cs) = Inr p \<longrightarrow>
        (\<exists>t. Client (Inr d) new_Pool new_Cluster pool_end (new_object (Some name)) cfg
               = Constructed t
           \<and> pool t = Some p \<and> cluster t = None))
     \<and> (cfg_pool cfg = Some pc \<and> max_cfg pc \<noteq> Some 0
          \<and> new_Pool (pool_options_for (Some pc) cs) = Inl e \<longrightarrow>
        (\<exists>t. Client (Inr d) new_Pool new_Cluster pool_end (new_object (Some name)) cfg
               = Threw e t
           \<and> pool t = None \<and> cluster t = None))"
proof (intro impI conjI)
  assume h: "name \<noteq> [] \<and> cfg_connection cfg = Some cs \<and> cfg_cluster cfg = None"
    and n: "cfg_pool cfg = None \<or> (\<exists>pc. cfg_pool cfg = Some pc \<and> max_cfg pc = Some 0)"
  from h n have "Client (Inr d) new_Pool new_Cluster pool_end (new_object (Some name)) cfg =
           Constructed
             (set_valueForUndefined cfg
                ((new_object (Some name))\<lparr>config := Some cfg, driver := Some d\<rparr>))"
    by (intro Client_without_pool_options) simp_all
  then show "\<exists>t. Client (Inr d) new_Pool new_Cluster pool_end (new_object (Some name)) cfg
               = Constructed t
           \<and> pool t = None \<and> cluster t = None"
    by (simp add: set_valueForUndefined_def new_object_def)
next
  assume h: "name \<noteq> [] \<and> cfg_connection cfg = Some cs \<and> cfg_cluster cfg = None"
    and y: "cfg_pool cfg = Some pc \<and> max_cfg pc \<noteq> Some 0
          \<and> new_Pool (pool_options_for (Some pc) cs) = Inr p"
  from h y show "\<exists>t. Client (Inr d) new_Pool new_Cluster pool_end (new_object (Some name)) cfg
               = Constructed t
           \<and> pool t = Some p \<and> cluster t = None"
    using Client_with_pool_options [of name cfg cs pc d new_Pool new_Cluster pool_end]
    by (simp add: set_valueForUndefined_def new_object_def)
next
  assume h: "name \<noteq> [] \<and> cfg_connection cfg = Some cs \<and> cfg_cluster cfg = None"
    and y: "cfg_pool cfg = Some pc \<and> max_cfg pc \<noteq> Some 0
          \<and> new_Pool (pool_options_for (Some pc) cs) = Inl e"
  from h y show "\<exists>t. Client (Inr d) new_Pool new_Cluster pool_end (new_object (Some name)) cfg
               = Threw e t
           \<and> pool t = None \<and> cluster t = None"
    using Client_with_pool_options [of name cfg cs pc d new_Pool new_Cluster pool_end]
    by (simp add: new_object_def)
qed

theorem pool_built_only_from_pool_options_witness:
  "''pg'' \<noteq> []
   \<and> cfg_connection connection_only_cfg = Some [(''host'', ''localhost'')]
   \<and> cfg_cluster connection_only_cfg = None
   \<and> cfg_pool connection_only_cfg = None
   \<and> (\<exists>t. Client (Inr 0) checking_Pool plain_Cluster end_at_once (new_object (Some ''pg''))
            connection_only_cfg = Constructed t
         \<and> pool t = None)
   \<and> (\<exists>t. Client (Inr 0) checking_Pool plain_Cluster end_at_once (new_object (Some ''pg''))
            (connection_only_cfg\<lparr>cfg_pool := Some (no_hooks\<lparr>max_cfg := Some 0\<rparr>)\<rparr>) = Constructed t
         \<and> pool t = None)
   \<and> checking_Pool (pool_options_for (Some no_hooks) [(''host'', ''localhost'')]) =
       Inr (Pool \<lparr>size_min = 2, size_max = 10, closed_over = no_hooks\<rparr>)
   \<and> (\<exists>t. Client (Inr 0) checking_Pool plain_Cluster end_at_once (new_object (Some ''pg''))
            (connection_only_cfg\<lparr>cfg_pool := Some no_hooks\<rparr>) = Constructed t
         \<and> pool t = Some (Pool \<lparr>size_min = 2, size_max = 10, closed_over = no_hooks\<rparr>))
   \<and> checking_Pool (pool_options_for (Some (no_hooks\<lparr>max_cfg := Some 1\<rparr>))
         [(''host'', ''localhost'')]) =
       Inl (JsError RangeError ''Pool2: invalid pool size'')
   \<and> (\<exists>t. Client (Inr 0) checking_Pool plain_Cluster end_at_once (new_object (Some ''pg''))
            (connection_only_cfg\<lparr>cfg_pool := Some (no_hooks\<lparr>max_cfg := Some 1\<rparr>)\<rparr>)
           = Threw (JsError RangeError ''Pool2: invalid pool size'') t
         \<and> pool t = None)"
  using
    pool_built_only_from_pool_options [of "''pg''" connection_only_cfg
      "[(''host'', ''localhost'')]" 0 checking_Pool plain_Cluster end_at_once no_hooks
      "Pool \<lparr>size_min = 2, size_max = 10, closed_over = no_hooks\<rparr>"
      "JsError RangeError ''Pool2: invalid pool size''"]
    pool_built_only_from_pool_options [of "''pg''"
      "connection_only_cfg\<lparr>cfg_pool := Some (no_hooks\<lparr>max_cfg := Some 0\<rparr>)\<rparr>"
      "[(''host'', ''localhost'')]" 0 checking_Pool plain_Cluster end_at_once no_hooks
      "Pool \<lparr>size_min = 2, size_max = 10, closed_over = no_hooks\<rparr>"
      "JsError RangeError ''Pool2: invalid pool size''"]
    pool_built_only_from_pool_options [of "''pg''"
      "connection_only_cfg\<lparr>cfg_pool := Some no_hooks\<rparr>"
      "[(''host'', ''localhost'')]" 0 checking_Pool plain_Cluster end_at_once no_hooks
      "Pool \<lparr>size_min = 2, size_max = 10, closed_over = no_hooks\<rparr>"
      "JsError RangeError ''Pool2: invalid pool size''"]
    pool_built_only_from_pool_options [of "''pg''"
      "connection_only_cfg\<lparr>cfg_pool := Some (no_hooks\<lparr>max_cfg := Some 1\<rparr>)\<rparr>"
      "[(''host'', ''localhost'')]" 0 checking_Pool plain_Cluster end_at_once
      "no_hooks\<lparr>max_cfg := Some 1\<rparr>"
      "Pool \<lparr>size_min = 2, size_max = 10, closed_over = no_hooks\<rparr>"
      "JsError RangeError ''Pool2: invalid pool size''"]
  by (simp add: connection_only_cfg_def no_hooks_def pool_options_for_def poolDefaults_def
      assign_sizes_def checking_Pool_def) blast

text \<open>
  C4 as stated fails: a configuration with connection settings and no \<open>pool\<close> property
  yields a client without a pool.
\<close>

theorem omitted_pool_builds_no_pool:
  "cfg_connection connection_only_cfg \<noteq> None
   \<and> cfg_cluster connection_only_cfg = None
   \<and> cfg_pool connection_only_cfg = None
   \<and> Client (Inr 0) checking_Pool plain_Cluster end_at_once (new_object (Some ''pg''))
       connection_only_cfg =
       Constructed
         \<lparr>driverName = Some ''pg'', driver = Some 0, config = Some connection_only_cfg,
          pool = None, cluster = None, valueForUndefined = Some RawDefault\<rparr>"
  by (simp add: Client_def Let_def new_object_def truthy_name_def connection_only_cfg_def
      set_valueForUndefined_def initializeDriver_def)

subsection \<open>The pool's acquire, acquireConnection and abort\<close>


lemma digits10_1: "digits10 (Suc 0) = ''1''"
  by (simp add: digits10.simps)

lemma acquire_hook_fails:
  assumes "gcs = Some cs" "acquireRawConnection cs = Resolved raw"
    "afterCreate pc = Some hook"
    "hook (raw\<lparr>knexUid := Some (snd (uniqueId ''__knexUid'' n))\<rparr>) = DoneErr e
     \<or> hook (raw\<lparr>knexUid := Some (snd (uniqueId ''__knexUid'' n))\<rparr>) = HookThrows e"
  shows "acquire gcs acquireRawConnection pc n =
           (Suc n,
            [AcquireRawConnection cs,
             AfterCreateCall (raw\<lparr>knexUid := Some (snd (uniqueId ''__knexUid'' n))\<rparr>)],
            CallbackWith (Inl e))"
  using assms by (auto simp add: acquire_def uniqueId_def Let_def)

text \<open>
  C5, as amended. For every call of a pool's \<open>acquire\<close> in which the configured
  \<open>afterCreate\<close> hook fails (calls back with an error, or throws) on the connection
  just created and tagged, the callback receives that error and no connection. The calls
  made are the raw connect and the hook: the driver's disconnect primitive is not called,
  so \<open>acquire\<close> does not dispose the handle.
\<close>

theorem failed_afterCreate_fails_acquire:
  "gcs = Some cs \<and> acquireRawConnection cs = Resolved raw \<and> afterCreate pc = Some hook
   \<and> (hook (raw\<lparr>knexUid := Some (snd (uniqueId ''__knexUid'' n))\<rparr>) = DoneErr e
      \<or> hook (raw\<lparr>knexUid := Some (snd (uniqueId ''__knexUid'' n))\<rparr>) = HookThrows e)
   \<longrightarrow> snd (snd (acquire gcs acquireRawConnection pc n)) = CallbackWith (Inl e)
       \<and> fst (snd (acquire gcs acquireRawConnection pc n)) =
           [AcquireRawConnection cs,
            AfterCreateCall (raw\<lparr>knexUid := Some (snd (uniqueId ''__knexUid'' n))\<rparr>)]
       \<and> (\<forall>x. DestroyRawConnection x \<notin> set (fst (snd (acquire gcs acquireRawConnection pc n))))"
proof (intro impI)
  assume h: "gcs = Some cs \<and> acquireRawConnection cs = Resolved raw \<and> afterCreate pc = Some hook
   \<and> (hook (raw\<lparr>knexUid := Some (snd (uniqueId ''__knexUid'' n))\<rparr>) = DoneErr e
      \<or> hook (raw\<lparr>knexUid := Some (snd (uniqueId ''__knexUid'' n))\<rparr>) = HookThrows e)"
  then have "acquire gcs acquireRawConnection pc n =
           (Suc n,
            [AcquireRawConnection cs,
             AfterCreateCall (raw\<lparr>knexUid := Some (snd (uniqueId ''__knexUid'' n))\<rparr>)],
            CallbackWith (Inl e))"
    using acquire_hook_fails [of gcs cs acquireRawConnection raw pc hook n e] by blast
  then show "snd (snd (acquire gcs acquireRawConnection pc n)) = CallbackWith (Inl e)
       \<and> fst (snd (acquire gcs acquireRawConnection pc n)) =
           [AcquireRawConnection cs,
            AfterCreateCall (raw\<lparr>knexUid := Some (snd (uniqueId ''__knexUid'' n))\<rparr>)]
       \<and> (\<forall>x. DestroyRawConnection x \<notin> set (fst (snd (acquire gcs acquireRawConnection pc n))))"
    by simp
qed

theorem failed_afterCreate_fails_acquire_witness:
  "connect_ok [] = Resolved \<lparr>resource = 1, knexUid = None\<rparr>
   \<and> afterCreate hooked_config = Some failing_hook
   \<and> failing_hook \<lparr>resource = 1, knexUid = Some ''__knexUid1''\<rparr>
       = DoneErr (JsError Error ''afterCreate failed'')
   \<and> snd (snd (acquire (Some []) connect_ok hooked_config 0))
       = CallbackWith (Inl (JsError Error ''afterCreate failed''))
   \<and> fst (snd (acquire (Some []) connect_ok hooked_config 0))
       = [AcquireRawConnection [],
          AfterCreateCall \<lparr>resource = 1, knexUid = Some ''__knexUid1''\<rparr>]"
  using failed_afterCreate_fails_acquire [of "Some []" "[]" connect_ok
          "\<lparr>resource = 1, knexUid = None\<rparr>" hooked_config failing_hook 0
          "JsError Error ''afterCreate failed''"]
  by (simp add: connect_ok_def hooked_config_def no_hooks_def failing_hook_def uniqueId_def
      digits10_1)

text \<open>
  C5 as stated fails: the hook fails on the new handle, the callback gets the error, and
  the handle is not passed to \<open>destroyRawConnection\<close>.
\<close>

theorem failed_afterCreate_leaks_handle:
  "acquire (Some []) connect_ok hooked_config 0 =
     (1,
      [AcquireRawConnection [],
       AfterCreateCall \<lparr>resource = 1, knexUid = Some ''__knexUid1''\<rparr>],
      CallbackWith (Inl (JsError Error ''afterCreate failed'')))
   \<and> DestroyRawConnection \<lparr>resource = 1, knexUid = Some ''__knexUid1''\<rparr>
       \<notin> set (fst (snd (acquire (Some []) connect_ok hooked_config 0)))"
  by (simp add: acquire_def connect_ok_def hooked_config_def no_hooks_def failing_hook_def
      uniqueId_def digits10_1 Let_def)

lemma Client_cluster_constructed:
  assumes "name \<noteq> []" "cfg_cluster cfg \<noteq> None"
    "Client load_driver new_Pool new_Cluster pool_end (new_object (Some name)) cfg = Constructed t"
  shows "pool t = None \<and> cluster t \<noteq> None"
proof -
  from assms(2) obtain cc where cc: "cfg_cluster cfg = Some cc" by auto
  show ?thesis
  proof (cases "cfg_pool cfg")
    case (Some pc)
    with assms cc show ?thesis
      by (simp add: Client_def Let_def initializeDriver_def new_object_def truthy_name_def
          split: sum.splits)
  next
    case None
    with assms cc show ?thesis
      by (auto simp add: Client_def Let_def initializeDriver_def new_object_def truthy_name_def
          set_valueForUndefined_def split: sum.splits)
  qed
qed

lemma acquireConnection_cluster_only:
  "pool t = None \<Longrightarrow> cluster t \<noteq> None \<Longrightarrow>
   acquireConnection call_acquire active t capability =
     \<lparr>completed = Rejected (JsError TypeError ''Cannot read property 'acquire' of undefined''),
      request = None, emitted = []\<rparr>"
  by (simp add: acquireConnection_def select_acquire_def)

text \<open>
  C6, at a client configured with a cluster. The constructor gives such a client a
  cluster and no pool. Its \<open>acquireConnection\<close> then rejects with the \<^verbatim>\<open>TypeError\<close> of
  reading \<^verbatim>\<open>client.pool.acquire\<close>: whatever the pool library would answer, nothing is
  called, no request is made and no event is emitted, so the acquisition is not delegated
  to the cluster and no handle is delivered. The same holds of every client a dialect's
  constructor returns for a configuration with a cluster.
\<close>

theorem cluster_client_never_reaches_router:
  "Client (Inr 0) checking_Pool plain_Cluster end_at_once (new_object (Some ''pg'')) cluster_cfg =
     Constructed
       \<lparr>driverName = Some ''pg'', driver = Some 0, config = Some cluster_cfg, pool = None,
        cluster =
          Some (Cluster [Pool \<lparr>size_min = 2, size_max = 10, closed_over = no_hooks\<rparr>]),
        valueForUndefined = Some RawDefault\<rparr>
   \<and> acquireConnection call_acquire active
       \<lparr>driverName = Some ''pg'', driver = Some 0, config = Some cluster_cfg, pool = None,
        cluster =
          Some (Cluster [Pool \<lparr>size_min = 2, size_max = 10, closed_over = no_hooks\<rparr>]),
        valueForUndefined = Some RawDefault\<rparr> capability =
     \<lparr>completed = Rejected (JsError TypeError ''Cannot read property 'acquire' of undefined''),
      request = None, emitted = []\<rparr>
   \<and> (name \<noteq> [] \<and> cfg_cluster cfg \<noteq> None
        \<and> Client load_driver new_Pool new_Cluster pool_end (new_object (Some name)) cfg
            = Constructed t \<longrightarrow>
        acquireConnection call_acquire active t capability =
          \<lparr>completed =
             Rejected (JsError TypeError ''Cannot read property 'acquire' of undefined''),
           request = None, emitted = []\<rparr>)"
proof (intro conjI impI)
  show "Client (Inr 0) checking_Pool plain_Cluster end_at_once (new_object (Some ''pg'')) cluster_cfg =
     Constructed
       \<lparr>driverName = Some ''pg'', driver = Some 0, config = Some cluster_cfg, pool = None,
        cluster =
          Some (Cluster [Pool \<lparr>size_min = 2, size_max = 10, closed_over = no_hooks\<rparr>]),
        valueForUndefined = Some RawDefault\<rparr>"
    by (simp add: Client_def Let_def new_object_def truthy_name_def cluster_cfg_def
        set_valueForUndefined_def initializeDriver_def initializeCluster_def sample_member_def
        initializePool_def pool_options_for_def poolDefaults_def assign_sizes_def no_hooks_def
        checking_Pool_def plain_Cluster_def)
next
  show "acquireConnection call_acquire active
       \<lparr>driverName = Some ''pg'', driver = Some 0, config = Some cluster_cfg, pool = None,
        cluster =
          Some (Cluster [Pool \<lparr>size_min = 2, size_max = 10, closed_over = no_hooks\<rparr>]),
        valueForUndefined = Some RawDefault\<rparr> capability =
     \<lparr>completed = Rejected (JsError TypeError ''Cannot read property 'acquire' of undefined''),
      request = None, emitted = []\<rparr>"
    by (simp add: acquireConnection_cluster_only)
next
  assume "name \<noteq> [] \<and> cfg_cluster cfg \<noteq> None
        \<and> Client load_driver new_Pool new_Cluster pool_end (new_object (Some name)) cfg
            = Constructed t"
  then have "pool t = None \<and> cluster t \<noteq> None"
    using Client_cluster_constructed [of name cfg load_driver new_Pool new_Cluster pool_end t]
    by simp
  then show "acquireConnection call_acquire active t capability =
          \<lparr>completed =
             Rejected (JsError TypeError ''Cannot read property 'acquire' of undefined''),
           request = None, emitted = []\<rparr>"
    by (simp add: acquireConnection_cluster_only)
qed

theorem cluster_client_never_reaches_router_witness:
  "handing_out NoAlternative =
     CallReturned (Some \<lparr>request_id = 1, fulfilled = True\<rparr>) (Some (Inr sample_connection))
   \<and> ''pg'' \<noteq> [] \<and> cfg_cluster cluster_cfg \<noteq> None
   \<and> completed (acquireConnection handing_out None
       \<lparr>driverName = Some ''pg'', driver = Some 0, config = Some cluster_cfg, pool = None,
        cluster =
          Some (Cluster [Pool \<lparr>size_min = 2, size_max = 10, closed_over = no_hooks\<rparr>]),
        valueForUndefined = Some RawDefault\<rparr> ''replica'')
      \<noteq> Resolved sample_connection"
  using cluster_client_never_reaches_router [of handing_out None "''replica''" "''pg''" cluster_cfg
          "Inr 0" checking_Pool plain_Cluster end_at_once
          "\<lparr>driverName = Some ''pg'', driver = Some 0, config = Some cluster_cfg, pool = None,
            cluster =
              Some (Cluster [Pool \<lparr>size_min = 2, size_max = 10, closed_over = no_hooks\<rparr>]),
            valueForUndefined = Some RawDefault\<rparr>"]
  by (simp add: handing_out_def cluster_cfg_def)

lemma aborts_fulfilled:
  "fulfilled r \<Longrightarrow> aborts request_abort (Some r) reasons = (Some r, [])"
  by (induction reasons) (simp_all add: abort_def)

lemma aborts_no_request: "aborts request_abort None reasons = (None, [])"
  by (induction reasons) (simp_all add: abort_def)

lemma aborts_calls_pending:
  "\<forall>(r, x) \<in> set (snd (aborts request_abort req reasons)). \<not> fulfilled r"
proof (induction reasons arbitrary: req)
  case Nil
  show ?case by simp
next
  case (Cons reason reasons)
  show ?case
  proof (cases req)
    case None
    then show ?thesis by (simp add: aborts_no_request abort_def)
  next
    case (Some r)
    show ?thesis
    proof (cases "fulfilled r")
      case True
      with Some show ?thesis using aborts_fulfilled [OF True, of request_abort "reason # reasons"]
        by simp
    next
      case False
      with Some Cons [of "Some (request_abort r reason)"] show ?thesis
        by (simp add: abort_def split: prod.splits)
    qed
  qed
qed

lemma aborts_once:
  assumes "\<And>r x. fulfilled (request_abort r x)"
  shows "length (snd (aborts request_abort req reasons)) \<le> 1"
proof (cases reasons)
  case Nil
  then show ?thesis by simp
next
  case (Cons reason rest)
  show ?thesis
  proof (cases req)
    case None
    then show ?thesis by (simp add: aborts_no_request)
  next
    case (Some r)
    show ?thesis
    proof (cases "fulfilled r")
      case True
      then show ?thesis using Some by (simp add: aborts_fulfilled)
    next
      case False
      have "aborts request_abort (Some (request_abort r reason)) rest
            = (Some (request_abort r reason), [])"
        by (rule aborts_fulfilled) (rule assms)
      with False Some Cons show ?thesis by (simp add: abort_def)
    qed
  qed
qed

text \<open>
  C7. For every request an \<open>acquireConnection\<close> leaves behind: \<open>abort\<close> on a fulfilled
  request calls nothing, however often it is repeated, and leaves the request as it is;
  \<open>abort\<close> without a request calls nothing; \<open>abort\<close> on a request that is not fulfilled
  passes the reason to the request's own \<open>abort\<close>. In any series of calls, each call
  that reaches Pool2 found the request unfulfilled, and if Pool2's \<open>abort\<close> marks the
  request fulfilled, at most the first one reaches it.
\<close>

theorem abort_cancels_only_while_pending:
  "(fulfilled r \<longrightarrow>
      abort (Some r) reason = None \<and> aborts request_abort (Some r) reasons = (Some r, []))
   \<and> abort None reason = None
   \<and> aborts request_abort None reasons = (None, [])
   \<and> (\<not> fulfilled r \<longrightarrow> abort (Some r) reason = Some reason)
   \<and> (\<forall>(r', x) \<in> set (snd (aborts request_abort req reasons)). \<not> fulfilled r')
   \<and> ((\<forall>r' x. fulfilled (request_abort r' x)) \<longrightarrow>
        length (snd (aborts request_abort req reasons)) \<le> 1)
   \<and> (completed (acquireConnection call_acquire active c capability) = Resolved connection
        \<and> request (acquireConnection call_acquire active c capability) = Some r \<and> fulfilled r \<longrightarrow>
        aborts request_abort (request (acquireConnection call_acquire active c capability)) reasons
          = (Some r, []))"
proof (intro conjI impI)
  assume "fulfilled r"
  then show "abort (Some r) reason = None" by (simp add: abort_def)
next
  assume "fulfilled r"
  then show "aborts request_abort (Some r) reasons = (Some r, [])" by (rule aborts_fulfilled)
next
  show "abort None reason = None" by (simp add: abort_def)
next
  show "aborts request_abort None reasons = (None, [])" by (rule aborts_no_request)
next
  assume "\<not> fulfilled r"
  then show "abort (Some r) reason = Some reason" by (simp add: abort_def)
next
  show "\<forall>(r', x) \<in> set (snd (aborts request_abort req reasons)). \<not> fulfilled r'"
    by (rule aborts_calls_pending)
next
  assume "\<forall>r' x. fulfilled (request_abort r' x)"
  then show "length (snd (aborts request_abort req reasons)) \<le> 1"
    by (intro aborts_once) simp
next
  assume "completed (acquireConnection call_acquire active c capability) = Resolved connection
        \<and> request (acquireConnection call_acquire active c capability) = Some r \<and> fulfilled r"
  then show "aborts request_abort (request (acquireConnection call_acquire active c capability)) reasons
          = (Some r, [])"
    by (simp add: aborts_fulfilled)
qed

theorem abort_cancels_only_while_pending_witness:
  "fulfilled \<lparr>request_id = 1, fulfilled = True\<rparr>
   \<and> aborts marks_fulfilled (Some \<lparr>request_id = 1, fulfilled = True\<rparr>) [''a'', ''b'', ''c'']
       = (Some \<lparr>request_id = 1, fulfilled = True\<rparr>, [])
   \<and> \<not> fulfilled pending_request
   \<and> abort (Some pending_request) ''a'' = Some ''a''
   \<and> aborts marks_fulfilled (Some pending_request) [''a'', ''b'', ''c'']
       = (Some \<lparr>request_id = 1, fulfilled = True\<rparr>, [(pending_request, ''a'')])
   \<and> completed (acquireConnection handing_out None pooled_client ''any'') = Resolved sample_connection
   \<and> request (acquireConnection handing_out None pooled_client ''any'')
       = Some \<lparr>request_id = 1, fulfilled = True\<rparr>
   \<and> aborts marks_fulfilled (request (acquireConnection handing_out None pooled_client ''any''))
        [''a'', ''b'', ''c'']
       = (Some \<lparr>request_id = 1, fulfilled = True\<rparr>, [])"
  using abort_cancels_only_while_pending [of "\<lparr>request_id = 1, fulfilled = True\<rparr>" "''a''"
          marks_fulfilled "[''a'', ''b'', ''c'']" "Some pending_request" handing_out None pooled_client
          "''any''" sample_connection]
        abort_cancels_only_while_pending [of pending_request "''a''"
          marks_fulfilled "[''a'', ''b'', ''c'']" "Some pending_request" handing_out None pooled_client
          "''any''" sample_connection]
  by (simp add: abort_def marks_fulfilled_def pending_request_def acquireConnection_def
      pooled_client_def new_object_def select_acquire_def handing_out_def acquire_callback_def)

end
